theory Spec2Isabelle
  imports Complex_Main
begin

section \<open>Numbers\<close>

text \<open>
  The services compute on JavaScript numbers.  They are modelled as exact reals: every
  statement below is about the arithmetic the code writes down, not about binary
  rounding.  Counters and millisecond timestamps are integers.

  \<^verbatim>\<open>Math.round(x)\<close> is the nearest integer, a tie going up; the services round to
  four decimals with \<^verbatim>\<open>Math.round(x * 10000) / 10000\<close>.
\<close>

definition js_round :: "real \<Rightarrow> int" where
  "js_round x = \<lfloor>x + 1 / 2\<rfloor>"

definition round4 :: "real \<Rightarrow> real" where
  "round4 x = real_of_int (js_round (x * 10000)) / 10000"

section \<open>Mastery service (mastery.service.ts)\<close>

text \<open>
  \<^verbatim>\<open>MasteryState\<close> is the interface the service exports; a row of the table
  \<^verbatim>\<open>user_topic_mastery\<close> has these four columns and the counters and timestamps
  besides.  A timestamp is a number of milliseconds, \<open>None\<close> for SQL NULL.
\<close>

record MasteryState =
  mastery_score :: real
  learning_rate :: real
  forgetting_rate :: real
  confidence_interval :: real

record mastery_row = MasteryState +
  attempts_count :: int
  correct_answers :: int
  time_spent_seconds :: real
  last_attempt_at :: "int option"
  mastery_achieved_at :: "int option"

text \<open>\<^verbatim>\<open>getTimeSinceLastAttempt\<close>: milliseconds since the last attempt, 0 when there is none.
  The clock (\<^verbatim>\<open>Date.now()\<close>) is the explicit argument \<open>now\<close>.\<close>

definition getTimeSinceLastAttempt :: "int \<Rightarrow> int option \<Rightarrow> real" where
  "getTimeSinceLastAttempt now lastAttemptAt =
     (case lastAttemptAt of None \<Rightarrow> 0 | Some t \<Rightarrow> real_of_int (now - t))"

text \<open>
  \<^verbatim>\<open>Math.max(0.5, Math.min(1.5, 30 / timeTaken))\<close>.  In JavaScript \<^verbatim>\<open>30 / 0\<close> is
  \<^verbatim>\<open>Infinity\<close>, which the inner \<^verbatim>\<open>Math.min\<close> cuts to 1.5; HOL's \<open>30 / 0\<close> is 0, so the
  case is written out.
\<close>

definition timeAdjustment :: "real \<Rightarrow> real" where
  "timeAdjustment timeTaken =
     (if timeTaken = 0 then 1.5 else max 0.5 (min 1.5 (30 / timeTaken)))"

definition applyBKTUpdate ::
  "int \<Rightarrow> 'a mastery_row_scheme \<Rightarrow> bool \<Rightarrow> real \<Rightarrow> real \<Rightarrow> MasteryState" where
  "applyBKTUpdate now currentMastery isCorrect difficulty timeTaken =
     (let m0 = mastery_score currentMastery;
          lr0 = learning_rate currentMastery;
          fr = forgetting_rate currentMastery;
          ci0 = confidence_interval currentMastery;
          difficultyAdjustment = 1 + (difficulty - 0.5) * 0.3;
          adjustedLearningRate = lr0 * difficultyAdjustment * timeAdjustment timeTaken;
          m1 = (if isCorrect
                then min 0.99 (m0 + adjustedLearningRate * (1.0 - m0))
                else max 0.01 (m0 - fr * m0 * 2));
          ci1 = (if isCorrect then max 0.05 (ci0 * 0.95) else min 0.5 (ci0 * 1.1));
          lr1 = (if isCorrect then max 0.05 (lr0 * 0.98) else min 0.3 (lr0 * 1.02));
          timeSinceLastAttempt = getTimeSinceLastAttempt now (last_attempt_at currentMastery);
          timeBasedForgetting = fr * (timeSinceLastAttempt / (24 * 60 * 60 * 1000));
          m2 = max 0.01 (m1 - timeBasedForgetting)
      in \<lparr>mastery_score = round4 m2,
          learning_rate = round4 lr1,
          forgetting_rate = fr,
          confidence_interval = round4 ci1\<rparr>)"

text \<open>The row that \<^verbatim>\<open>initializeMastery\<close> inserts; the columns it leaves out take
  their SQL defaults (NULL for both timestamps).\<close>

definition initialMastery :: mastery_row where
  "initialMastery =
     \<lparr>mastery_score = 0.1, learning_rate = 0.15, forgetting_rate = 0.05,
      confidence_interval = 0.3,
      attempts_count = 0, correct_answers = 0, time_spent_seconds = 0,
      last_attempt_at = None, mastery_achieved_at = None\<rparr>"


subsection \<open>The store\<close>

text \<open>
  The Supabase client is outside the repository.  Its tables are modelled as finite maps
  keyed by the columns the schema declares unique.  A query never throws: it answers
  \<^verbatim>\<open>{ data, error }\<close>, and the two flags \<open>read_error\<close> and \<open>write_error\<close> make every
  select, respectively every insert and update, answer with an error and no data.
  \<open>question_attempts\<close> lists a user's attempts newest first, as the queries order them.
\<close>

type_synonym user_id = string
type_synonym topic_id = string

datatype arm = Easy | Medium | Hard

record ArmParameters =
  alpha :: real
  beta :: real

record UserContext =
  topic_mastery :: real
  recent_accuracy :: real
  avg_time_per_question :: real
  total_attempts :: int
  time_of_day :: int
  engagement_level :: real
  streak_days :: int
  context_confidence_interval :: real
  context_timeTaken :: "real option"

record bandit_model =
  arm_parameters :: "arm \<Rightarrow> ArmParameters"
  context_features :: "UserContext option"
  total_interactions :: int
  last_updated :: int

record question_attempt =
  is_correct :: bool
  time_taken_seconds :: real

record db =
  user_topic_mastery :: "user_id \<times> topic_id \<rightharpoonup> mastery_row"
  bandit_models :: "user_id \<rightharpoonup> bandit_model"
  question_attempts :: "user_id \<Rightarrow> question_attempt list"
  current_streak :: "user_id \<rightharpoonup> int"
  read_error :: bool
  write_error :: bool

datatype error =
  FailedToInitializeMastery
  | FailedToUpdateMastery
  | FailedToInitializeBanditModel
  | NonFinite

text \<open>\<^verbatim>\<open>.from('user_topic_mastery').select('*').eq(user).eq(topic).single()\<close>\<close>

definition select_mastery :: "db \<Rightarrow> user_id \<Rightarrow> topic_id \<Rightarrow> mastery_row option" where
  "select_mastery s userId topicId =
     (if read_error s then None else user_topic_mastery s (userId, topicId))"

text \<open>\<^verbatim>\<open>initializeMastery\<close>: the insert fails on a store error and on the unique
  constraint \<^verbatim>\<open>UNIQUE(user_id, topic_id)\<close>; then the service throws.\<close>

definition initializeMastery :: "db \<Rightarrow> user_id \<Rightarrow> topic_id \<Rightarrow> (error + mastery_row) \<times> db" where
  "initializeMastery s userId topicId =
     (if write_error s \<or> user_topic_mastery s (userId, topicId) \<noteq> None
      then (Inl FailedToInitializeMastery, s)
      else (Inr initialMastery,
            s\<lparr>user_topic_mastery := (user_topic_mastery s)((userId, topicId) \<mapsto> initialMastery)\<rparr>))"

text \<open>The object that \<^verbatim>\<open>updateMastery\<close> writes over the row it has read.\<close>

definition updated_row :: "int \<Rightarrow> mastery_row \<Rightarrow> MasteryState \<Rightarrow> bool \<Rightarrow> real \<Rightarrow> mastery_row" where
  "updated_row now mastery updatedMastery isCorrect timeTaken =
     \<lparr>mastery_score = mastery_score updatedMastery,
      learning_rate = learning_rate updatedMastery,
      forgetting_rate = forgetting_rate updatedMastery,
      confidence_interval = confidence_interval updatedMastery,
      attempts_count = attempts_count mastery + 1,
      correct_answers = correct_answers mastery + (if isCorrect then 1 else 0),
      time_spent_seconds = time_spent_seconds mastery + timeTaken,
      last_attempt_at = Some now,
      mastery_achieved_at =
        (if mastery_score updatedMastery \<ge> 0.8 \<and> mastery_achieved_at mastery = None
         then Some now else mastery_achieved_at mastery)\<rparr>"

definition updateMastery ::
  "db \<Rightarrow> int \<Rightarrow> user_id \<Rightarrow> topic_id \<Rightarrow> bool \<Rightarrow> real \<Rightarrow> real \<Rightarrow> (error + MasteryState) \<times> db" where
  "updateMastery s now userId topicId isCorrect difficulty timeTaken =
     (case (case select_mastery s userId topicId of
              Some mastery \<Rightarrow> (Inr mastery, s)
            | None \<Rightarrow> initializeMastery s userId topicId) of
        (Inl e, s1) \<Rightarrow> (Inl e, s1)
      | (Inr mastery, s1) \<Rightarrow>
          (let updatedMastery = applyBKTUpdate now mastery isCorrect difficulty timeTaken
           in if write_error s1 \<or> user_topic_mastery s1 (userId, topicId) = None
              then (Inl FailedToUpdateMastery, s1)
              else (Inr updatedMastery,
                    s1\<lparr>user_topic_mastery := (user_topic_mastery s1)((userId, topicId) \<mapsto>
                         updated_row now mastery updatedMastery isCorrect timeTaken)\<rparr>)))"

subsection \<open>Insights\<close>

text \<open>
  A JavaScript quotient with divisor 0 is \<^verbatim>\<open>Infinity\<close> or \<^verbatim>\<open>NaN\<close>, which no real number
  stands for: the model answers \<open>NonFinite\<close> there, so that an unguarded division shows
  as an error value.
\<close>

definition js_divide :: "real \<Rightarrow> real \<Rightarrow> error + real" where
  "js_divide a b = (if b = 0 then Inl NonFinite else Inr (a / b))"

definition getMasteryLevel :: "real \<Rightarrow> string" where
  "getMasteryLevel score =
     (if score \<ge> 0.8 then ''Expert''
      else if score \<ge> 0.6 then ''Proficient''
      else if score \<ge> 0.4 then ''Developing''
      else if score \<ge> 0.2 then ''Beginning''
      else ''Novice'')"

definition predictNextQuestionSuccess :: "'a MasteryState_scheme \<Rightarrow> real" where
  "predictNextQuestionSuccess mastery =
     (let base_probability = mastery_score mastery;
          confidence_adjustment = (1 - confidence_interval mastery) * 0.1
      in min 0.95 (base_probability + confidence_adjustment))"

definition recommendOptimalDifficulty :: "'a MasteryState_scheme \<Rightarrow> real" where
  "recommendOptimalDifficulty mastery =
     (let base_difficulty = mastery_score mastery + 0.1;
          confidence_adjustment = confidence_interval mastery * 0.2
      in max 0.1 (min 0.9 (base_difficulty - confidence_adjustment)))"

definition identifyStrengths :: "mastery_row \<Rightarrow> error + string list" where
  "identifyStrengths mastery =
     (case js_divide (real_of_int (correct_answers mastery))
                     (real_of_int (max 1 (attempts_count mastery))) of
        Inl e \<Rightarrow> Inl e
      | Inr accuracy \<Rightarrow> Inr (
          (if mastery_score mastery \<ge> 0.7 then [''Strong understanding of core concepts''] else [])
          @ (if accuracy \<ge> 0.8 then [''High accuracy in responses''] else [])
          @ (if learning_rate mastery \<le> 0.1 then [''Consistent performance''] else [])))"

definition identifyImprovementAreas :: "mastery_row \<Rightarrow> error + string list" where
  "identifyImprovementAreas mastery =
     (case js_divide (real_of_int (correct_answers mastery))
                     (real_of_int (max 1 (attempts_count mastery))) of
        Inl e \<Rightarrow> Inl e
      | Inr accuracy \<Rightarrow> Inr (
          (if mastery_score mastery < 0.5
           then [''Needs more practice with fundamental concepts''] else [])
          @ (if accuracy < 0.6 then [''Focus on accuracy improvement''] else [])
          @ (if confidence_interval mastery > 0.3
             then [''More practice needed to build confidence''] else [])))"

record insights =
  mastery_level :: string
  insights_mastery_score :: real
  confidence :: real
  accuracy :: real
  insights_avg_time_per_question :: real
  insights_total_attempts :: int
  predicted_success_rate :: real
  recommended_difficulty :: real
  strengths :: "string list"
  improvement_areas :: "string list"

text \<open>\<^verbatim>\<open>getMasteryInsights\<close> answers \<^verbatim>\<open>null\<close> (here \<open>Inr None\<close>) when it reads no row.\<close>

definition getMasteryInsights :: "db \<Rightarrow> user_id \<Rightarrow> topic_id \<Rightarrow> error + insights option" where
  "getMasteryInsights s userId topicId =
     (case select_mastery s userId topicId of
        None \<Rightarrow> Inr None
      | Some mastery \<Rightarrow>
         (case (if attempts_count mastery > 0
                then js_divide (real_of_int (correct_answers mastery))
                               (real_of_int (attempts_count mastery))
                else Inr 0) of
            Inl e \<Rightarrow> Inl e
          | Inr acc \<Rightarrow>
         (case (if attempts_count mastery > 0
                then js_divide (time_spent_seconds mastery)
                               (real_of_int (attempts_count mastery))
                else Inr 0) of
            Inl e \<Rightarrow> Inl e
          | Inr avgTimePerQuestion \<Rightarrow>
         (case identifyStrengths mastery of
            Inl e \<Rightarrow> Inl e
          | Inr str \<Rightarrow>
         (case identifyImprovementAreas mastery of
            Inl e \<Rightarrow> Inl e
          | Inr areas \<Rightarrow>
             Inr (Some
               \<lparr>mastery_level = getMasteryLevel (mastery_score mastery),
                insights_mastery_score = mastery_score mastery,
                confidence = 1 - confidence_interval mastery,
                accuracy = acc,
                insights_avg_time_per_question = avgTimePerQuestion,
                insights_total_attempts = attempts_count mastery,
                predicted_success_rate = predictNextQuestionSuccess mastery,
                recommended_difficulty = recommendOptimalDifficulty mastery,
                strengths = str,
                improvement_areas = areas\<rparr>))))))"


section \<open>Bandit service (bandit.service.ts)\<close>

text \<open>\<^verbatim>\<open>arm_parameters\<close> is a JSON object with the keys easy, medium and hard.\<close>

definition initialArmParams :: "arm \<Rightarrow> ArmParameters" where
  "initialArmParams k =
     (case k of
        Easy \<Rightarrow> \<lparr>alpha = 2, beta = 1\<rparr>
      | Medium \<Rightarrow> \<lparr>alpha = 1.5, beta = 1.5\<rparr>
      | Hard \<Rightarrow> \<lparr>alpha = 1, beta = 2\<rparr>)"

definition select_bandit :: "db \<Rightarrow> user_id \<Rightarrow> bandit_model option" where
  "select_bandit s userId = (if read_error s then None else bandit_models s userId)"

definition initializeBanditModel :: "db \<Rightarrow> int \<Rightarrow> user_id \<Rightarrow> (error + bandit_model) \<times> db" where
  "initializeBanditModel s now userId =
     (let model = \<lparr>arm_parameters = initialArmParams, context_features = None,
                   total_interactions = 0, last_updated = now\<rparr>
      in if write_error s \<or> bandit_models s userId \<noteq> None
         then (Inl FailedToInitializeBanditModel, s)
         else (Inr model, s\<lparr>bandit_models := (bandit_models s)(userId \<mapsto> model)\<rparr>))"

definition getDifficultyArm :: "real \<Rightarrow> arm" where
  "getDifficultyArm difficulty =
     (if difficulty \<le> 0.4 then Easy else if difficulty \<le> 0.7 then Medium else Hard)"

text \<open>One group of \<^verbatim>\<open>adjustments.easy += e; adjustments.medium += m; adjustments.hard += h\<close>.\<close>

definition adjust :: "(arm \<Rightarrow> real) \<Rightarrow> real \<Rightarrow> real \<Rightarrow> real \<Rightarrow> arm \<Rightarrow> real" where
  "adjust adjustments e m h k =
     adjustments k + (case k of Easy \<Rightarrow> e | Medium \<Rightarrow> m | Hard \<Rightarrow> h)"

definition calculateContextualAdjustments :: "UserContext \<Rightarrow> arm \<Rightarrow> real" where
  "calculateContextualAdjustments context =
     (let a0 = (\<lambda>k. 0);
          a1 = (if topic_mastery context < 0.3 then adjust a0 1.0 (- 0.5) (- 1.0)
                else if topic_mastery context > 0.7 then adjust a0 (- 1.0) 0.5 1.0
                else a0);
          a2 = (if recent_accuracy context < 0.5 then adjust a1 0.8 (- 0.3) (- 0.8)
                else if recent_accuracy context > 0.8 then adjust a1 (- 0.5) 0.3 0.7
                else a1);
          a3 = (if avg_time_per_question context > 45 then adjust a2 0.5 0 (- 0.5) else a2);
          a4 = (if engagement_level context < 0.4 then adjust a3 0.7 (- 0.2) (- 0.7) else a3);
          a5 = (if time_of_day context \<ge> 15 then adjust a4 0.3 0 (- 0.3) else a4)
      in a5)"

text \<open>The two arguments \<^verbatim>\<open>recommendQuestion\<close> passes to \<^verbatim>\<open>sampleBeta\<close> for an arm.\<close>

definition sampleBeta_arguments :: "(arm \<Rightarrow> ArmParameters) \<Rightarrow> UserContext \<Rightarrow> arm \<Rightarrow> real \<times> real" where
  "sampleBeta_arguments armParams context k =
     (alpha (armParams k) + calculateContextualAdjustments context k, beta (armParams k))"

text \<open>
  \<^verbatim>\<open>recommendQuestion\<close>.  The random source is explicit: \<open>sampleBeta k a b\<close> is the draw
  that the call for arm \<open>k\<close> returns, \<open>random\<close> the uniform draw of the exploration noise.
  \<^verbatim>\<open>Object.keys(samples).reduce\<close> runs over easy, medium, hard in this order.
\<close>

definition recommendQuestion ::
  "(arm \<Rightarrow> real \<Rightarrow> real \<Rightarrow> real) \<Rightarrow> real \<Rightarrow> db \<Rightarrow> int \<Rightarrow> user_id \<Rightarrow> UserContext \<Rightarrow> (error + real) \<times> db" where
  "recommendQuestion sampleBeta random s now userId context =
     (case (case select_bandit s userId of
              Some model \<Rightarrow> (Inr model, s)
            | None \<Rightarrow> initializeBanditModel s now userId) of
        (Inl e, s1) \<Rightarrow> (Inl e, s1)
      | (Inr model, s1) \<Rightarrow>
          (let armParams = arm_parameters model;
               samples = (\<lambda>k. sampleBeta k (fst (sampleBeta_arguments armParams context k))
                                          (snd (sampleBeta_arguments armParams context k)));
               pick = (\<lambda>a b. if samples a > samples b then a else b);
               selectedArm = pick (pick Easy Medium) Hard;
               baseDifficulty = (case selectedArm of Easy \<Rightarrow> 0.3 | Medium \<Rightarrow> 0.6 | Hard \<Rightarrow> 0.9);
               explorationNoise = (random - 0.5) * 0.2
           in (Inr (max 0.1 (min 1.0 (baseDifficulty + explorationNoise))), s1)))"

text \<open>The arm parameters \<^verbatim>\<open>updateModel\<close> computes: the increment of the arm that was
  used, then decay and floor on every key.\<close>

definition updated_arm_parameters :: "(arm \<Rightarrow> ArmParameters) \<Rightarrow> bool \<Rightarrow> real \<Rightarrow> arm \<Rightarrow> ArmParameters" where
  "updated_arm_parameters armParams isCorrect difficulty =
     (let used = getDifficultyArm difficulty;
          armParams1 = (if isCorrect
                        then armParams(used := (armParams used)\<lparr>alpha := alpha (armParams used) + 1\<rparr>)
                        else armParams(used := (armParams used)\<lparr>beta := beta (armParams used) + 1\<rparr>));
          decayFactor = 0.995
      in (\<lambda>key. \<lparr>alpha = max 1 (alpha (armParams1 key) * decayFactor),
                  beta = max 1 (beta (armParams1 key) * decayFactor)\<rparr>))"

text \<open>\<^verbatim>\<open>BanditService.updateModel\<close> returns nothing and throws nothing: the result of its
  final update query is not looked at.\<close>

definition BanditService_updateModel ::
  "db \<Rightarrow> int \<Rightarrow> user_id \<Rightarrow> bool \<Rightarrow> real \<Rightarrow> UserContext \<Rightarrow> db" where
  "BanditService_updateModel s now userId isCorrect difficulty context =
     (case select_bandit s userId of
        None \<Rightarrow> s
      | Some model \<Rightarrow>
          if write_error s then s
          else s\<lparr>bandit_models := (bandit_models s)(userId \<mapsto>
                 \<lparr>arm_parameters = updated_arm_parameters (arm_parameters model) isCorrect difficulty,
                  context_features = Some context,
                  total_interactions = total_interactions model + 1,
                  last_updated = now\<rparr>)\<rparr>)"

section \<open>Adaptive service (adaptive.service.ts)\<close>

text \<open>\<^verbatim>\<open>x || d\<close> on numbers: \<open>d\<close> when \<open>x\<close> is 0.\<close>

definition js_or :: "'a::zero \<Rightarrow> 'a \<Rightarrow> 'a" where
  "js_or x d = (if x = 0 then d else x)"

text \<open>
  \<^verbatim>\<open>AdaptiveService.updateModel\<close> awaits both updates with \<^verbatim>\<open>Promise.all\<close>.  They
  work on different tables, so their order does not matter; the bandit update cannot
  fail, and a failure of the mastery update is the failure of the call.
\<close>

definition AdaptiveService_updateModel ::
  "db \<Rightarrow> int \<Rightarrow> user_id \<Rightarrow> topic_id \<Rightarrow> bool \<Rightarrow> real \<Rightarrow> UserContext \<Rightarrow> (error + unit) \<times> db" where
  "AdaptiveService_updateModel s now userId topicId isCorrect difficulty context =
     (let s1 = BanditService_updateModel s now userId isCorrect difficulty context;
          (r, s2) = updateMastery s1 now userId topicId isCorrect difficulty
                      (js_or (case context_timeTaken context of None \<Rightarrow> 0 | Some t \<Rightarrow> t) 30)
      in (case r of Inl e \<Rightarrow> (Inl e, s2) | Inr _ \<Rightarrow> (Inr (), s2)))"

text \<open>\<^verbatim>\<open>buildUserContext\<close>; the hour of the day is read off the clock (UTC).\<close>

definition buildUserContext :: "db \<Rightarrow> int \<Rightarrow> user_id \<Rightarrow> topic_id \<Rightarrow> UserContext" where
  "buildUserContext s now userId topicId =
     (let mastery = select_mastery s userId topicId;
          recentAttempts = (if read_error s then [] else take 10 (question_attempts s userId));
          streak = (if read_error s then 0
                    else js_or (case current_streak s userId of None \<Rightarrow> 0 | Some n \<Rightarrow> n) 0);
          n = real (length recentAttempts);
          recentAccuracy = (if recentAttempts \<noteq> []
                            then real (length (filter is_correct recentAttempts)) / n
                            else 0.5);
          avgTimePerQuestion = (if recentAttempts \<noteq> []
                                then sum_list (map time_taken_seconds recentAttempts) / n
                                else 30);
          streakFactor = min 1 (real_of_int streak / 7);
          timeFactor = max 0 (1 - (avgTimePerQuestion - 20) / 40);
          accuracyFactor = recentAccuracy
      in \<lparr>topic_mastery = js_or (case mastery of None \<Rightarrow> 0 | Some r \<Rightarrow> mastery_score r) 0,
          recent_accuracy = recentAccuracy,
          avg_time_per_question = avgTimePerQuestion,
          total_attempts = js_or (case mastery of None \<Rightarrow> 0 | Some r \<Rightarrow> attempts_count r) 0,
          time_of_day = (now div 3600000) mod 24,
          engagement_level = (streakFactor + timeFactor + accuracyFactor) / 3,
          streak_days = streak,
          context_confidence_interval =
            js_or (case mastery of None \<Rightarrow> 0 | Some r \<Rightarrow> confidence_interval r) 0.5,
          context_timeTaken = None\<rparr>)"

record engagement_recommendation =
  intervention_needed :: bool
  intervention_type :: string
  recommendation :: string
  estimated_recovery_time :: "int option"

definition assessEngagementNeed :: "UserContext \<Rightarrow> int option \<Rightarrow> engagement_recommendation" where
  "assessEngagementNeed context frustration_indicators =
     (if avg_time_per_question context > 60 \<or> recent_accuracy context < 0.3
      then \<lparr>intervention_needed = True, intervention_type = ''fatigue_detected'',
            recommendation = ''suggest_break_or_easier_content'',
            estimated_recovery_time = Some 10\<rparr>
      else if recent_accuracy context > 0.9 \<and> avg_time_per_question context < 15
      then \<lparr>intervention_needed = True, intervention_type = ''boredom_detected'',
            recommendation = ''increase_difficulty_or_add_challenge'',
            estimated_recovery_time = None\<rparr>
      else if (case frustration_indicators of None \<Rightarrow> False | Some n \<Rightarrow> n > 3)
      then \<lparr>intervention_needed = True, intervention_type = ''frustration_detected'',
            recommendation = ''provide_hint_or_explanation'',
            estimated_recovery_time = None\<rparr>
      else \<lparr>intervention_needed = False, intervention_type = ''optimal_engagement'',
            recommendation = ''continue_current_approach'',
            estimated_recovery_time = None\<rparr>)"

definition estimateTimeToMastery :: "real \<Rightarrow> int" where
  "estimateTimeToMastery currentMastery =
     (let masteryGap = 0.8 - currentMastery
      in if masteryGap \<le> 0 then 0 else \<lceil>masteryGap / 0.05\<rceil>)"

definition calculateNextDifficultyTarget :: "UserContext \<Rightarrow> MasteryState \<Rightarrow> real" where
  "calculateNextDifficultyTarget context masteryUpdate =
     (let baseDifficulty = mastery_score masteryUpdate + 0.1;
          confidenceAdjustment = (1 - confidence_interval masteryUpdate) * 0.1;
          performanceAdjustment = (recent_accuracy context - 0.5) * 0.2;
          targetDifficulty = baseDifficulty + confidenceAdjustment + performanceAdjustment
      in max 0.1 (min 0.9 targetDifficulty))"

record session_recommendation =
  recommended_actions :: "string list"
  estimated_time_to_mastery :: int
  next_difficulty_target :: real

definition getNextSessionRecommendation :: "UserContext \<Rightarrow> MasteryState \<Rightarrow> session_recommendation" where
  "getNextSessionRecommendation context masteryUpdate =
     \<lparr>recommended_actions =
        (if mastery_score masteryUpdate \<ge> 0.8 then [''topic_mastered_move_to_next'']
         else if mastery_score masteryUpdate < 0.3 then [''review_fundamentals'']
         else [])
        @ (if engagement_level context < 0.4 then [''try_story_mode_next_session'']
           else if engagement_level context > 0.8 then [''ready_for_challenge_mode'']
           else []),
      estimated_time_to_mastery = estimateTimeToMastery (mastery_score masteryUpdate),
      next_difficulty_target = calculateNextDifficultyTarget context masteryUpdate\<rparr>"

record feedbackData =
  feedback_isCorrect :: bool
  feedback_difficulty :: real
  feedback_timeTaken :: real
  feedback_frustration_indicators :: "int option"

record feedback_result =
  mastery_update :: MasteryState
  engagement_recommendation :: engagement_recommendation
  next_session_recommendation :: session_recommendation

text \<open>\<^verbatim>\<open>processFeedback\<close>: after \<^verbatim>\<open>updateModel\<close> it calls \<^verbatim>\<open>updateMastery\<close> itself,
  with the raw \<^verbatim>\<open>timeTaken\<close> of the request.\<close>

definition processFeedback ::
  "db \<Rightarrow> int \<Rightarrow> user_id \<Rightarrow> topic_id \<Rightarrow> feedbackData \<Rightarrow> (error + feedback_result) \<times> db" where
  "processFeedback s now userId topicId fb =
     (let context = buildUserContext s now userId topicId;
          contextWithTiming = context\<lparr>context_timeTaken := Some (js_or (feedback_timeTaken fb) 30)\<rparr>;
          (r1, s1) = AdaptiveService_updateModel s now userId topicId
                       (feedback_isCorrect fb) (feedback_difficulty fb) contextWithTiming
      in case r1 of
           Inl e \<Rightarrow> (Inl e, s1)
         | Inr _ \<Rightarrow>
            (let (r2, s2) = updateMastery s1 now userId topicId
                              (feedback_isCorrect fb) (feedback_difficulty fb) (feedback_timeTaken fb)
             in case r2 of
                  Inl e \<Rightarrow> (Inl e, s2)
                | Inr masteryUpdate \<Rightarrow>
                    (Inr \<lparr>mastery_update = masteryUpdate,
                          engagement_recommendation =
                            assessEngagementNeed contextWithTiming (feedback_frustration_indicators fb),
                          next_session_recommendation =
                            getNextSessionRecommendation contextWithTiming masteryUpdate\<rparr>,
                     s2)))"


section \<open>Ranges, call sequences and example stores\<close>

text \<open>The ranges the data model documents for a mastery state.\<close>

definition within_documented_ranges :: "'a MasteryState_scheme \<Rightarrow> bool" where
  "within_documented_ranges st \<longleftrightarrow>
     0.01 \<le> mastery_score st \<and> mastery_score st \<le> 0.99
     \<and> 0.05 \<le> learning_rate st \<and> learning_rate st \<le> 0.3
     \<and> 0.05 \<le> confidence_interval st \<and> confidence_interval st \<le> 0.5"

text \<open>A caller that submits answers for one user and topic, one \<^verbatim>\<open>updateMastery\<close>
  after the other; a call is (clock, isCorrect, difficulty, timeTaken).  A call that
  throws leaves the store as it is and the caller goes on.\<close>

fun updateMastery_calls ::
  "db \<Rightarrow> user_id \<Rightarrow> topic_id \<Rightarrow> (int \<times> bool \<times> real \<times> real) list \<Rightarrow> db" where
  "updateMastery_calls s userId topicId [] = s"
| "updateMastery_calls s userId topicId ((now, isCorrect, difficulty, timeTaken) # calls) =
     updateMastery_calls
       (snd (updateMastery s now userId topicId isCorrect difficulty timeTaken))
       userId topicId calls"

text \<open>The clock never runs backwards: the calls are in time order and none is earlier
  than the stored last attempt.\<close>

definition elapsed_nonnegative :: "int option \<Rightarrow> (int \<times> bool \<times> real \<times> real) list \<Rightarrow> bool" where
  "elapsed_nonnegative lastAttemptAt calls \<longleftrightarrow>
     sorted (map fst calls)
     \<and> (case lastAttemptAt of None \<Rightarrow> True | Some t0 \<Rightarrow> list_all (\<lambda>call. t0 \<le> fst call) calls)"

definition row_ok :: "mastery_row \<Rightarrow> (int \<times> bool \<times> real \<times> real) list \<Rightarrow> bool" where
  "row_ok r calls \<longleftrightarrow>
     within_documented_ranges r \<and> 0 \<le> forgetting_rate r
     \<and> elapsed_nonnegative (last_attempt_at r) calls"

text \<open>A streak of correct answers, each (difficulty, timeTaken), all at the same clock
  reading \<open>now\<close>: no time passes between the attempts.\<close>

definition correct_streak ::
  "db \<Rightarrow> int \<Rightarrow> user_id \<Rightarrow> topic_id \<Rightarrow> (real \<times> real) list \<Rightarrow> db" where
  "correct_streak s now userId topicId answers =
     updateMastery_calls s userId topicId
       (map (\<lambda>(difficulty, timeTaken). (now, True, difficulty, timeTaken)) answers)"

definition valid_answer :: "real \<times> real \<Rightarrow> bool" where
  "valid_answer a \<longleftrightarrow> 0 \<le> fst a \<and> fst a \<le> 1 \<and> 0 < snd a"

definition streak_row_ok :: "int \<Rightarrow> mastery_row \<Rightarrow> bool" where
  "streak_row_ok now r \<longleftrightarrow>
     within_documented_ranges r
     \<and> (last_attempt_at r = None \<or> last_attempt_at r = Some now)"

text \<open>The stored \<^verbatim>\<open>mastery_achieved_at\<close> of a user and topic; unset also when there is
  no row.\<close>

definition achieved_at :: "db \<Rightarrow> user_id \<Rightarrow> topic_id \<Rightarrow> int option" where
  "achieved_at s userId topicId =
     (case user_topic_mastery s (userId, topicId) of
        None \<Rightarrow> None
      | Some r \<Rightarrow> mastery_achieved_at r)"

text \<open>The invariant the data model states for a bandit model.\<close>

definition arm_ok :: "ArmParameters \<Rightarrow> bool" where
  "arm_ok p \<longleftrightarrow> 1 \<le> alpha p \<and> 1 \<le> beta p"

definition BanditModel_invariant :: "(arm \<Rightarrow> ArmParameters) \<Rightarrow> bool" where
  "BanditModel_invariant armParams \<longleftrightarrow>
     arm_ok (armParams Easy) \<and> arm_ok (armParams Medium) \<and> arm_ok (armParams Hard)"

fun BanditService_updateModel_calls ::
  "db \<Rightarrow> user_id \<Rightarrow> (int \<times> bool \<times> real \<times> UserContext) list \<Rightarrow> db" where
  "BanditService_updateModel_calls s userId [] = s"
| "BanditService_updateModel_calls s userId ((now, isCorrect, difficulty, context) # calls) =
     BanditService_updateModel_calls
       (BanditService_updateModel s now userId isCorrect difficulty context) userId calls"

text \<open>The insight formulas in the words of the specification: \<open>clamp(x, lo, hi)\<close> and the
  table of level labels.\<close>

definition clamp :: "real \<Rightarrow> real \<Rightarrow> real \<Rightarrow> real" where
  "clamp x lo hi = (if x < lo then lo else if hi < x then hi else x)"

definition level_label :: "real \<Rightarrow> string" where
  "level_label score =
     (if score < 0.2 then ''Novice''
      else if score < 0.4 then ''Beginning''
      else if score < 0.6 then ''Developing''
      else if score < 0.8 then ''Proficient''
      else ''Expert'')"

text \<open>Example stores: an empty one, one where the user has a fresh mastery row and a
  fresh bandit model, and one where the topic was mastered at time 5.\<close>

definition empty_store :: db where
  "empty_store =
     \<lparr>user_topic_mastery = Map.empty, bandit_models = Map.empty,
      question_attempts = (\<lambda>u. []), current_streak = Map.empty,
      read_error = False, write_error = False\<rparr>"

definition fresh_store :: db where
  "fresh_store =
     empty_store
       \<lparr>user_topic_mastery := [(''u1'', ''t1'') \<mapsto> initialMastery],
        bandit_models := [''u1'' \<mapsto>
          \<lparr>arm_parameters = initialArmParams, context_features = None,
           total_interactions = 0, last_updated = 0\<rparr>]\<rparr>"

definition mastered_store :: db where
  "mastered_store =
     empty_store
       \<lparr>user_topic_mastery := [(''u1'', ''t1'') \<mapsto>
          initialMastery\<lparr>mastery_score := 0.85, attempts_count := 12, correct_answers := 11,
                         time_spent_seconds := 300, mastery_achieved_at := Some 5\<rparr>]\<rparr>"

definition example_feedback :: feedbackData where
  "example_feedback =
     \<lparr>feedback_isCorrect = True, feedback_difficulty = 0.5, feedback_timeTaken = 30,
      feedback_frustration_indicators = None\<rparr>"

text \<open>Two context snapshots: a learner for whom every rule that lowers the easy arm
  fires, and one for whom every rule that lowers the medium and hard arms fires.\<close>

definition strong_learner_context :: UserContext where
  "strong_learner_context =
     \<lparr>topic_mastery = 0.9, recent_accuracy = 0.9, avg_time_per_question = 30,
      total_attempts = 40, time_of_day = 10, engagement_level = 0.5, streak_days = 3,
      context_confidence_interval = 0.1, context_timeTaken = None\<rparr>"

definition struggling_learner_context :: UserContext where
  "struggling_learner_context =
     \<lparr>topic_mastery = 0.1, recent_accuracy = 0.2, avg_time_per_question = 50,
      total_attempts = 5, time_of_day = 16, engagement_level = 0.2, streak_days = 0,
      context_confidence_interval = 0.5, context_timeTaken = None\<rparr>"

text \<open>A bandit model with a long record of successes on every arm.\<close>

definition seasoned_arms :: "arm \<Rightarrow> ArmParameters" where
  "seasoned_arms k = \<lparr>alpha = 4, beta = 1\<rparr>"

section \<open>Properties\<close>

subsection \<open>Rounding to four decimals\<close>

lemma round4_mono_grid_ge:
  assumes "real_of_int k / 10000 \<le> x"
  shows "real_of_int k / 10000 \<le> round4 x"
proof -
  from assms have "real_of_int k \<le> x * 10000" by (simp add: field_simps)
  then have "real_of_int k \<le> x * 10000 + 1 / 2" by simp
  then have "k \<le> js_round (x * 10000)" unfolding js_round_def by (simp add: le_floor_iff)
  then have "real_of_int k \<le> real_of_int (js_round (x * 10000))" by simp
  then show ?thesis unfolding round4_def by (simp add: divide_right_mono)
qed

lemma round4_mono_grid_le:
  assumes "x \<le> real_of_int k / 10000"
  shows "round4 x \<le> real_of_int k / 10000"
proof -
  from assms have "x * 10000 \<le> real_of_int k" by (simp add: field_simps)
  then have "x * 10000 + 1 / 2 < real_of_int k + 1" by simp
  then have "js_round (x * 10000) \<le> k" unfolding js_round_def by linarith
  then have "real_of_int (js_round (x * 10000)) \<le> real_of_int k" by simp
  then show ?thesis unfolding round4_def by (simp add: divide_right_mono)
qed

lemma round4_gt: "x - 0.00005 < round4 x"
proof -
  have "x * 10000 + 1 / 2 < real_of_int (js_round (x * 10000)) + 1"
    unfolding js_round_def by linarith
  then show ?thesis unfolding round4_def by (simp add: field_simps)
qed

lemma round4_le: "round4 x \<le> x + 0.00005"
proof -
  have "real_of_int (js_round (x * 10000)) \<le> x * 10000 + 1 / 2"
    unfolding js_round_def by linarith
  then show ?thesis unfolding round4_def by (simp add: field_simps)
qed

lemma round4_bounds:
  "0.01 \<le> x \<Longrightarrow> 0.01 \<le> round4 x"
  "x \<le> 0.99 \<Longrightarrow> round4 x \<le> 0.99"
  "0.05 \<le> x \<Longrightarrow> 0.05 \<le> round4 x"
  "x \<le> 0.3 \<Longrightarrow> round4 x \<le> 0.3"
  "x \<le> 0.5 \<Longrightarrow> round4 x \<le> 0.5"
  using round4_mono_grid_ge [of 100 x] round4_mono_grid_le [of x 9900]
    round4_mono_grid_ge [of 500 x] round4_mono_grid_le [of x 3000]
    round4_mono_grid_le [of x 5000]
  by simp_all

lemma round4_fix: "round4 0.99 = 0.99" "round4 0.05 = 0.05"
  by (simp_all add: round4_def js_round_def)


subsection \<open>The fields applyBKTUpdate returns\<close>

lemma applyBKTUpdate_forgetting_rate:
  "forgetting_rate (applyBKTUpdate now r c d tt) = forgetting_rate r"
  by (simp add: applyBKTUpdate_def Let_def)

lemma applyBKTUpdate_learning_rate:
  "learning_rate (applyBKTUpdate now r c d tt) =
     round4 (if c then max 0.05 (learning_rate r * 0.98) else min 0.3 (learning_rate r * 1.02))"
  by (simp add: applyBKTUpdate_def Let_def)

lemma applyBKTUpdate_confidence_interval:
  "confidence_interval (applyBKTUpdate now r c d tt) =
     round4 (if c then max 0.05 (confidence_interval r * 0.95)
             else min 0.5 (confidence_interval r * 1.1))"
  by (simp add: applyBKTUpdate_def Let_def)

lemma applyBKTUpdate_mastery_score:
  "mastery_score (applyBKTUpdate now r c d tt) =
     round4 (max 0.01
       ((if c then min 0.99 (mastery_score r
                  + learning_rate r * (1 + (d - 0.5) * 0.3) * timeAdjustment tt * (1 - mastery_score r))
         else max 0.01 (mastery_score r - forgetting_rate r * mastery_score r * 2))
        - forgetting_rate r
          * (getTimeSinceLastAttempt now (last_attempt_at r) / (24 * 60 * 60 * 1000))))"
  by (simp add: applyBKTUpdate_def Let_def)

lemma applyBKTUpdate_learning_rate_range:
  assumes "0.05 \<le> learning_rate r" "learning_rate r \<le> 0.3"
  shows "0.05 \<le> learning_rate (applyBKTUpdate now r c d tt)
         \<and> learning_rate (applyBKTUpdate now r c d tt) \<le> 0.3"
proof -
  let ?x = "if c then max 0.05 (learning_rate r * 0.98) else min 0.3 (learning_rate r * 1.02)"
  have lo: "0.05 \<le> ?x" and hi: "?x \<le> 0.3" using assms by (auto simp: max_def min_def)
  have "0.05 \<le> round4 ?x" using lo by (rule round4_bounds)
  moreover have "round4 ?x \<le> 0.3" using hi by (rule round4_bounds)
  ultimately show ?thesis unfolding applyBKTUpdate_learning_rate by blast
qed

lemma applyBKTUpdate_confidence_interval_range:
  assumes "0.05 \<le> confidence_interval r" "confidence_interval r \<le> 0.5"
  shows "0.05 \<le> confidence_interval (applyBKTUpdate now r c d tt)
         \<and> confidence_interval (applyBKTUpdate now r c d tt) \<le> 0.5"
proof -
  let ?x = "if c then max 0.05 (confidence_interval r * 0.95)
            else min 0.5 (confidence_interval r * 1.1)"
  have lo: "0.05 \<le> ?x" and hi: "?x \<le> 0.5" using assms by (auto simp: max_def min_def)
  have "0.05 \<le> round4 ?x" using lo by (rule round4_bounds)
  moreover have "round4 ?x \<le> 0.5" using hi by (rule round4_bounds)
  ultimately show ?thesis unfolding applyBKTUpdate_confidence_interval by blast
qed

lemma applyBKTUpdate_mastery_score_lower:
  "0.01 \<le> mastery_score (applyBKTUpdate now r c d tt)"
  unfolding applyBKTUpdate_mastery_score by (rule round4_bounds) simp

lemma applyBKTUpdate_mastery_score_upper:
  assumes "0 \<le> mastery_score r" "mastery_score r \<le> 0.99" "0 \<le> forgetting_rate r"
    and "0 \<le> getTimeSinceLastAttempt now (last_attempt_at r)"
  shows "mastery_score (applyBKTUpdate now r c d tt) \<le> 0.99"
proof -
  let ?m1 = "if c then min 0.99 (mastery_score r
                  + learning_rate r * (1 + (d - 0.5) * 0.3) * timeAdjustment tt * (1 - mastery_score r))
         else max 0.01 (mastery_score r - forgetting_rate r * mastery_score r * 2)"
  let ?loss = "forgetting_rate r
          * (getTimeSinceLastAttempt now (last_attempt_at r) / (24 * 60 * 60 * 1000))"
  have "0 \<le> forgetting_rate r * mastery_score r" using assms by simp
  then have "?m1 \<le> 0.99" using assms(2) by (auto simp: max_def min_def)
  moreover have "0 \<le> ?loss" using assms by simp
  ultimately have "max 0.01 (?m1 - ?loss) \<le> 0.99" by (simp add: max_def)
  then show ?thesis
    unfolding applyBKTUpdate_mastery_score by (rule round4_bounds)
qed

lemma applyBKTUpdate_within_ranges:
  assumes "within_documented_ranges r" "0 \<le> forgetting_rate r"
    and "0 \<le> getTimeSinceLastAttempt now (last_attempt_at r)"
  shows "within_documented_ranges (applyBKTUpdate now r c d tt)"
proof -
  from assms(1) have m: "0 \<le> mastery_score r" "mastery_score r \<le> 0.99"
    and l: "0.05 \<le> learning_rate r" "learning_rate r \<le> 0.3"
    and c: "0.05 \<le> confidence_interval r" "confidence_interval r \<le> 0.5"
    by (simp_all add: within_documented_ranges_def)
  show ?thesis
    unfolding within_documented_ranges_def
    using applyBKTUpdate_mastery_score_lower [of now r c d tt]
      applyBKTUpdate_mastery_score_upper [OF m assms(2,3), of c d tt]
      applyBKTUpdate_learning_rate_range [OF l, of now c d tt]
      applyBKTUpdate_confidence_interval_range [OF c, of now c d tt]
    by blast
qed

lemma fresh_state_correct_answer:
  "applyBKTUpdate now initialMastery True (1 / 2) 30 =
     \<lparr>mastery_score = 0.235, learning_rate = 0.147, forgetting_rate = 0.05,
      confidence_interval = 0.285\<rparr>"
  by (simp add: applyBKTUpdate_def Let_def initialMastery_def timeAdjustment_def
      getTimeSinceLastAttempt_def round4_def js_round_def)

text \<open>
  Claim C6.  From the default-initialised state (mastery 0.1, learning rate 0.15,
  forgetting rate 0.05, confidence interval 0.3, no last attempt), one update with a
  correct answer, difficulty 0.5 and 30 seconds yields the mastery score
  \<open>0.1 + 0.15 * 1.0 * 1.0 * (1 - 0.1) = 0.235\<close>, whatever the clock reads.
\<close>

theorem scenario_fresh_state_correct_answer:
  "mastery_score (applyBKTUpdate now initialMastery True 0.5 30) = 0.235
   \<and> mastery_score (applyBKTUpdate now initialMastery True 0.5 30)
       = 0.1 + 0.15 * 1.0 * 1.0 * (1 - 0.1)"
  by (simp add: applyBKTUpdate_mastery_score initialMastery_def timeAdjustment_def
      getTimeSinceLastAttempt_def round4_def js_round_def)


subsection \<open>What updateMastery stores\<close>

lemma updateMastery_existing_row:
  assumes "user_topic_mastery s (u, t) = Some r"
  shows "user_topic_mastery (snd (updateMastery s now u t c d tt)) (u, t) =
           (if read_error s \<or> write_error s then Some r
            else Some (updated_row now r (applyBKTUpdate now r c d tt) c tt))"
  using assms
  by (simp add: updateMastery_def select_mastery_def initializeMastery_def Let_def)

lemma updateMastery_result_existing_row:
  assumes "user_topic_mastery s (u, t) = Some r"
  shows "fst (updateMastery s now u t c d tt) =
           (if read_error s then Inl FailedToInitializeMastery
            else if write_error s then Inl FailedToUpdateMastery
            else Inr (applyBKTUpdate now r c d tt))"
  using assms
  by (simp add: updateMastery_def select_mastery_def initializeMastery_def Let_def)

lemma updateMastery_missing_row:
  assumes "user_topic_mastery s (u, t) = None"
  shows "user_topic_mastery (snd (updateMastery s now u t c d tt)) (u, t) =
           (if write_error s then None
            else Some (updated_row now initialMastery
                         (applyBKTUpdate now initialMastery c d tt) c tt))"
  using assms
  by (simp add: updateMastery_def select_mastery_def initializeMastery_def Let_def)

lemma updateMastery_result_missing_row:
  assumes "user_topic_mastery s (u, t) = None"
  shows "fst (updateMastery s now u t c d tt) =
           (if write_error s then Inl FailedToInitializeMastery
            else Inr (applyBKTUpdate now initialMastery c d tt))"
  using assms
  by (simp add: updateMastery_def select_mastery_def initializeMastery_def Let_def)

lemma updateMastery_flags:
  "read_error (snd (updateMastery s now u t c d tt)) = read_error s"
  "write_error (snd (updateMastery s now u t c d tt)) = write_error s"
  by (auto simp: updateMastery_def select_mastery_def initializeMastery_def Let_def
      split: option.splits)

lemma updateMastery_bandit_models:
  "bandit_models (snd (updateMastery s now u t c d tt)) = bandit_models s"
  by (simp add: updateMastery_def initializeMastery_def Let_def split: option.splits)

lemma updated_row_fields:
  "mastery_score (updated_row now r st c tt) = mastery_score st"
  "learning_rate (updated_row now r st c tt) = learning_rate st"
  "forgetting_rate (updated_row now r st c tt) = forgetting_rate st"
  "confidence_interval (updated_row now r st c tt) = confidence_interval st"
  "last_attempt_at (updated_row now r st c tt) = Some now"
  "attempts_count (updated_row now r st c tt) = attempts_count r + 1"
  "mastery_achieved_at (updated_row now r st c tt) =
     (if mastery_score st \<ge> 0.8 \<and> mastery_achieved_at r = None then Some now
      else mastery_achieved_at r)"
  by (simp_all add: updated_row_def)

lemma updateMastery_calls_append:
  "updateMastery_calls s u t (xs @ ys) = updateMastery_calls (updateMastery_calls s u t xs) u t ys"
  by (induction xs arbitrary: s) auto

lemma updateMastery_calls_flags:
  "read_error (updateMastery_calls s u t calls) = read_error s"
  "write_error (updateMastery_calls s u t calls) = write_error s"
  by (induction calls arbitrary: s) (auto simp: updateMastery_flags)


subsection \<open>The clamping invariant\<close>

lemma row_ok_tail:
  assumes "row_ok r (call # calls)"
  shows "row_ok r calls"
  using assms by (auto simp: row_ok_def elapsed_nonnegative_def split: option.splits)

lemma row_ok_step:
  assumes "row_ok r ((now, c, d, tt) # calls)"
  shows "row_ok (updated_row now r (applyBKTUpdate now r c d tt) c tt) calls"
proof -
  from assms have rng: "within_documented_ranges r" and fr: "0 \<le> forgetting_rate r"
    and el: "elapsed_nonnegative (last_attempt_at r) ((now, c, d, tt) # calls)"
    by (simp_all add: row_ok_def)
  from el have "0 \<le> getTimeSinceLastAttempt now (last_attempt_at r)"
    by (auto simp: elapsed_nonnegative_def getTimeSinceLastAttempt_def split: option.splits)
  from applyBKTUpdate_within_ranges [OF rng fr this, of c d tt]
  have "within_documented_ranges (updated_row now r (applyBKTUpdate now r c d tt) c tt)"
    by (simp add: within_documented_ranges_def updated_row_fields)
  moreover have "0 \<le> forgetting_rate (updated_row now r (applyBKTUpdate now r c d tt) c tt)"
    using fr by (simp add: updated_row_fields applyBKTUpdate_forgetting_rate)
  moreover from el have "elapsed_nonnegative (Some now) calls"
    by (auto simp: elapsed_nonnegative_def list_all_iff)
  ultimately show ?thesis by (simp add: row_ok_def updated_row_fields)
qed

lemma updateMastery_calls_row_ok:
  assumes "user_topic_mastery s (u, t) = Some r" "row_ok r calls"
  shows "\<exists>r'. user_topic_mastery (updateMastery_calls s u t calls) (u, t) = Some r'
           \<and> row_ok r' []"
  using assms
proof (induction calls arbitrary: s r)
  case Nil
  then show ?case by simp
next
  case (Cons call calls)
  obtain now c d tt where call: "call = (now, c, d, tt)" by (cases call) auto
  let ?s = "snd (updateMastery s now u t c d tt)"
  show ?case
  proof (cases "read_error s \<or> write_error s")
    case True
    then have "user_topic_mastery ?s (u, t) = Some r"
      using updateMastery_existing_row [OF Cons.prems(1), of now c d tt] by simp
    moreover have "row_ok r calls" using Cons.prems(2) by (rule row_ok_tail)
    ultimately show ?thesis using Cons.IH [of ?s r] by (simp add: call)
  next
    case False
    then have "user_topic_mastery ?s (u, t) =
        Some (updated_row now r (applyBKTUpdate now r c d tt) c tt)"
      using updateMastery_existing_row [OF Cons.prems(1), of now c d tt] by simp
    moreover have "row_ok (updated_row now r (applyBKTUpdate now r c d tt) c tt) calls"
      using Cons.prems(2) unfolding call by (rule row_ok_step)
    ultimately show ?thesis
      using Cons.IH [of ?s "updated_row now r (applyBKTUpdate now r c d tt) c tt"]
      by (simp add: call)
  qed
qed

text \<open>
  Claim C3.  Start from a stored mastery state whose fields lie in their documented
  ranges (with a forgetting rate that is not negative), and run any finite sequence of
  updates, with arbitrary correctness, difficulty and time taken, the clock never running
  backwards.  Then the stored state still has \<open>masteryScore\<close> in [0.01, 0.99],
  \<open>learningRate\<close> in [0.05, 0.3] and \<open>confidenceInterval\<close> in [0.05, 0.5]: the bounds
  hold after every update, after the rounding to four decimals.
\<close>

theorem clamping_invariant:
  assumes "user_topic_mastery s (userId, topicId) = Some r"
    and "within_documented_ranges r"
    and "0 \<le> forgetting_rate r"
    and "elapsed_nonnegative (last_attempt_at r) calls"
  shows "\<exists>r'. user_topic_mastery (updateMastery_calls s userId topicId calls) (userId, topicId)
                = Some r'
              \<and> within_documented_ranges r'"
proof -
  have "row_ok r calls" using assms(2-4) by (simp add: row_ok_def)
  from updateMastery_calls_row_ok [OF assms(1) this]
  show ?thesis by (auto simp: row_ok_def)
qed

theorem clamping_invariant_witness:
  "user_topic_mastery fresh_store (''u1'', ''t1'') = Some initialMastery
   \<and> within_documented_ranges initialMastery
   \<and> 0 \<le> forgetting_rate initialMastery
   \<and> elapsed_nonnegative (last_attempt_at initialMastery)
        [(1000, True, 0.5, 30), (90000000, False, 0.9, 10)]
   \<and> (\<exists>r'. user_topic_mastery
               (updateMastery_calls fresh_store ''u1'' ''t1''
                  [(1000, True, 0.5, 30), (90000000, False, 0.9, 10)])
               (''u1'', ''t1'') = Some r'
            \<and> within_documented_ranges r')"
proof -
  have h1: "user_topic_mastery fresh_store (''u1'', ''t1'') = Some initialMastery"
    by (simp add: fresh_store_def empty_store_def)
  have h2: "within_documented_ranges initialMastery"
    by (simp add: within_documented_ranges_def initialMastery_def)
  have h3: "0 \<le> forgetting_rate initialMastery"
    by (simp add: initialMastery_def)
  have h4: "elapsed_nonnegative (last_attempt_at initialMastery)
              [(1000, True, 0.5, 30), (90000000, False, 0.9, 10)]"
    by (simp add: elapsed_nonnegative_def initialMastery_def)
  from clamping_invariant [OF h1 h2 h3 h4] h1 h2 h3 h4 show ?thesis by blast
qed


subsection \<open>Streaks of correct answers\<close>

lemma timeAdjustment_lower: "0.5 \<le> timeAdjustment tt"
  by (cases "tt = 0") (simp_all add: timeAdjustment_def le_max_iff_disj)

lemma product_lower:
  fixes a b c x y z :: real
  assumes "a \<le> x" "b \<le> y" "c \<le> z" "0 \<le> a" "0 \<le> b" "0 \<le> c"
  shows "a * b * c \<le> x * y * z"
proof -
  have xy: "a * b \<le> x * y" using assms by (simp add: mult_mono)
  have "0 \<le> a * b" using assms by simp
  then have "0 \<le> x * y" using xy by linarith
  then show ?thesis using xy assms by (simp add: mult_mono)
qed

lemma adjustedLearningRate_lower:
  assumes "0.05 \<le> lr" "0 \<le> d"
  shows "0.02125 \<le> lr * (1 + (d - 0.5) * 0.3) * timeAdjustment tt"
proof -
  have "0.85 \<le> 1 + (d - 0.5) * 0.3" using assms(2) by (simp add: field_simps)
  from product_lower [OF assms(1) this timeAdjustment_lower [of tt]]
  show ?thesis by simp
qed

lemma correct_answer_confidence_interval:
  assumes "0.05 \<le> confidence_interval r"
  shows "if 0.05 < confidence_interval r
         then confidence_interval (applyBKTUpdate now r True d tt) < confidence_interval r
         else confidence_interval (applyBKTUpdate now r True d tt) = 0.05"
proof (cases "confidence_interval r * 0.95 \<le> 0.05")
  case True
  then have "max 0.05 (confidence_interval r * 0.95) = 0.05" by (simp add: max_def)
  then have "confidence_interval (applyBKTUpdate now r True d tt) = 0.05"
    unfolding applyBKTUpdate_confidence_interval by (simp only: if_True round4_fix)
  then show ?thesis by simp
next
  case False
  then have big: "0.05 < confidence_interval r * 0.95" by simp
  then have eq: "max 0.05 (confidence_interval r * 0.95) = confidence_interval r * 0.95"
    by (simp add: max_def)
  have "confidence_interval (applyBKTUpdate now r True d tt)
          = round4 (confidence_interval r * 0.95)"
    unfolding applyBKTUpdate_confidence_interval by (simp only: if_True eq)
  also have "\<dots> \<le> confidence_interval r * 0.95 + 0.00005" by (rule round4_le)
  also have "\<dots> < confidence_interval r" using big by simp
  finally show ?thesis using big by simp
qed

lemma correct_answer_mastery_score:
  assumes "0.01 \<le> mastery_score r" "mastery_score r \<le> 0.99" "0.05 \<le> learning_rate r"
    and "0 \<le> d" and "getTimeSinceLastAttempt now (last_attempt_at r) = 0"
  shows "if mastery_score r < 0.99
         then mastery_score r < mastery_score (applyBKTUpdate now r True d tt)
         else mastery_score (applyBKTUpdate now r True d tt) = 0.99"
proof -
  let ?a = "learning_rate r * (1 + (d - 0.5) * 0.3) * timeAdjustment tt"
  let ?g = "?a * (1 - mastery_score r)"
  have a: "0.02125 \<le> ?a" using assms(3,4) by (rule adjustedLearningRate_lower)
  have score: "mastery_score (applyBKTUpdate now r True d tt)
                 = round4 (max 0.01 (min 0.99 (mastery_score r + ?g)))"
    using assms(5) by (simp add: applyBKTUpdate_mastery_score)
  have g0: "0 \<le> ?g" using a assms(2) by simp
  then have inner: "max 0.01 (min 0.99 (mastery_score r + ?g)) = min 0.99 (mastery_score r + ?g)"
    using assms(1) by (simp add: max_def min_def)
  show ?thesis
  proof (cases "0.99 \<le> mastery_score r + ?g")
    case True
    then have "min 0.99 (mastery_score r + ?g) = 0.99" by (simp add: min_def)
    then have "mastery_score (applyBKTUpdate now r True d tt) = 0.99"
      unfolding score inner by (simp only: round4_fix)
    then show ?thesis by simp
  next
    case False
    then have lt: "mastery_score r < 0.99" using g0 by simp
    then have "0.02125 * 0.01 \<le> ?a * (1 - mastery_score r)"
      using a by (intro mult_mono) simp_all
    then have g: "0.0002125 \<le> ?g" by simp
    from False have "min 0.99 (mastery_score r + ?g) = mastery_score r + ?g"
      by (simp add: min_def)
    then have "mastery_score (applyBKTUpdate now r True d tt) = round4 (mastery_score r + ?g)"
      unfolding score inner by (simp only:)
    moreover have "mastery_score r + ?g - 0.00005 < round4 (mastery_score r + ?g)"
      by (rule round4_gt)
    ultimately have "mastery_score r < mastery_score (applyBKTUpdate now r True d tt)"
      using g by simp
    then show ?thesis using lt by simp
  qed
qed

lemma correct_streak_append:
  "correct_streak s now u t (xs @ ys) = correct_streak (correct_streak s now u t xs) now u t ys"
  by (simp add: correct_streak_def updateMastery_calls_append)

lemma correct_streak_single:
  "correct_streak s now u t [(d, tt)] = snd (updateMastery s now u t True d tt)"
  by (simp add: correct_streak_def)

lemma streak_row_ok_elapsed:
  assumes "streak_row_ok now r"
  shows "getTimeSinceLastAttempt now (last_attempt_at r) = 0"
  using assms by (auto simp: streak_row_ok_def getTimeSinceLastAttempt_def)

lemma applyBKTUpdate_within_ranges_no_decay:
  assumes "within_documented_ranges r"
    and "getTimeSinceLastAttempt now (last_attempt_at r) = 0"
  shows "within_documented_ranges (applyBKTUpdate now r True d tt)"
proof -
  from assms(1) have m: "0.01 \<le> mastery_score r" "mastery_score r \<le> 0.99"
    and l: "0.05 \<le> learning_rate r" "learning_rate r \<le> 0.3"
    and c: "0.05 \<le> confidence_interval r" "confidence_interval r \<le> 0.5"
    by (simp_all add: within_documented_ranges_def)
  have "min 0.99 (mastery_score r
          + learning_rate r * (1 + (d - 0.5) * 0.3) * timeAdjustment tt * (1 - mastery_score r))
        \<le> 0.99" by (rule min.cobounded1)
  then have "max 0.01 (min 0.99 (mastery_score r
          + learning_rate r * (1 + (d - 0.5) * 0.3) * timeAdjustment tt * (1 - mastery_score r)))
        \<le> 0.99" by (intro max.boundedI) simp_all
  then have "round4 (max 0.01 (min 0.99 (mastery_score r
          + learning_rate r * (1 + (d - 0.5) * 0.3) * timeAdjustment tt * (1 - mastery_score r))))
        \<le> 0.99" by (rule round4_bounds)
  then have "mastery_score (applyBKTUpdate now r True d tt) \<le> 0.99"
    using assms(2) by (simp add: applyBKTUpdate_mastery_score)
  then show ?thesis
    unfolding within_documented_ranges_def
    using applyBKTUpdate_mastery_score_lower [of now r True d tt]
      applyBKTUpdate_learning_rate_range [OF l, of now True d tt]
      applyBKTUpdate_confidence_interval_range [OF c, of now True d tt]
    by blast
qed

lemma correct_streak_row_ok:
  assumes "user_topic_mastery s (u, t) = Some r" "streak_row_ok now r"
  shows "\<exists>r'. user_topic_mastery (correct_streak s now u t answers) (u, t) = Some r'
           \<and> streak_row_ok now r'"
  using assms
proof (induction answers arbitrary: s r)
  case Nil
  then show ?case by (simp add: correct_streak_def)
next
  case (Cons a answers)
  obtain d tt where a: "a = (d, tt)" by (cases a) auto
  let ?s = "snd (updateMastery s now u t True d tt)"
  let ?r = "updated_row now r (applyBKTUpdate now r True d tt) True tt"
  have step: "correct_streak s now u t (a # answers) = correct_streak ?s now u t answers"
    by (simp add: correct_streak_def a)
  show ?case
  proof (cases "read_error s \<or> write_error s")
    case True
    then have "user_topic_mastery ?s (u, t) = Some r"
      using updateMastery_existing_row [OF Cons.prems(1), of now True d tt] by simp
    then show ?thesis using Cons.IH [of ?s r] Cons.prems(2) by (simp add: step)
  next
    case False
    then have row: "user_topic_mastery ?s (u, t) = Some ?r"
      using updateMastery_existing_row [OF Cons.prems(1), of now True d tt] by simp
    have "within_documented_ranges (applyBKTUpdate now r True d tt)"
      using Cons.prems(2) streak_row_ok_elapsed [OF Cons.prems(2)]
      by (intro applyBKTUpdate_within_ranges_no_decay) (simp_all add: streak_row_ok_def)
    then have "streak_row_ok now ?r"
      by (simp add: streak_row_ok_def within_documented_ranges_def updated_row_fields)
    then show ?thesis using Cons.IH [OF row] by (simp add: step)
  qed
qed

text \<open>
  Claim C8.  Take a stored mastery state within its documented ranges and a streak of
  correct answers with valid difficulty and time taken, no time passing between the
  attempts and the store answering every query.  Then each update of the streak strictly
  lowers the confidence interval unless it is at the floor 0.05, where it stays, and
  strictly raises the mastery score unless it is at the ceiling 0.99, where it stays;
  both after the rounding to four decimals.  Here \<open>a\<close> is the state before the update
  number \<open>n + 1\<close> of the streak and \<open>b\<close> the state after it.
\<close>

theorem success_streak_monotone:
  assumes "\<not> read_error s" "\<not> write_error s"
    and "user_topic_mastery s (userId, topicId) = Some r"
    and "within_documented_ranges r"
    and "last_attempt_at r = None \<or> last_attempt_at r = Some now"
    and "list_all valid_answer answers"
    and "n < length answers"
  shows "\<exists>a b.
     user_topic_mastery (correct_streak s now userId topicId (take n answers)) (userId, topicId)
       = Some a
     \<and> user_topic_mastery (correct_streak s now userId topicId (take (Suc n) answers))
         (userId, topicId) = Some b
     \<and> (if 0.05 < confidence_interval a then confidence_interval b < confidence_interval a
        else confidence_interval b = 0.05)
     \<and> (if mastery_score a < 0.99 then mastery_score a < mastery_score b
        else mastery_score b = 0.99)"
proof -
  let ?s = "correct_streak s now userId topicId (take n answers)"
  obtain d tt where nth: "answers ! n = (d, tt)" by (cases "answers ! n") auto
  have "valid_answer (answers ! n)" using assms(6,7) by (simp add: list_all_length)
  then have d: "0 \<le> d" by (simp add: valid_answer_def nth)
  have "streak_row_ok now r" using assms(4,5) by (simp add: streak_row_ok_def)
  from correct_streak_row_ok [OF assms(3) this, of "take n answers"]
  obtain a where a: "user_topic_mastery ?s (userId, topicId) = Some a"
    and ok: "streak_row_ok now a" by blast
  have flags: "\<not> (read_error ?s \<or> write_error ?s)"
    using assms(1,2) by (simp add: correct_streak_def updateMastery_calls_flags)
  let ?b = "updated_row now a (applyBKTUpdate now a True d tt) True tt"
  have "take (Suc n) answers = take n answers @ [(d, tt)]"
    using assms(7) nth by (simp add: take_Suc_conv_app_nth)
  then have "correct_streak s now userId topicId (take (Suc n) answers)
               = snd (updateMastery ?s now userId topicId True d tt)"
    by (simp add: correct_streak_append correct_streak_single)
  then have b: "user_topic_mastery (correct_streak s now userId topicId (take (Suc n) answers))
                  (userId, topicId) = Some ?b"
    using updateMastery_existing_row [OF a, of now True d tt] flags by simp
  from ok have rng: "0.01 \<le> mastery_score a" "mastery_score a \<le> 0.99"
      "0.05 \<le> learning_rate a" "0.05 \<le> confidence_interval a"
    by (simp_all add: streak_row_ok_def within_documented_ranges_def)
  have ci: "if 0.05 < confidence_interval a
            then confidence_interval ?b < confidence_interval a
            else confidence_interval ?b = 0.05"
    using correct_answer_confidence_interval [OF rng(4), of now d tt]
    by (simp add: updated_row_fields)
  have ms: "if mastery_score a < 0.99 then mastery_score a < mastery_score ?b
            else mastery_score ?b = 0.99"
    using correct_answer_mastery_score [OF rng(1,2,3) d streak_row_ok_elapsed [OF ok], of tt]
    by (simp add: updated_row_fields)
  show ?thesis using a b ci ms by blast
qed

theorem success_streak_monotone_witness:
  "\<not> read_error fresh_store \<and> \<not> write_error fresh_store
   \<and> user_topic_mastery fresh_store (''u1'', ''t1'') = Some initialMastery
   \<and> within_documented_ranges initialMastery
   \<and> last_attempt_at initialMastery = None
   \<and> list_all valid_answer [(0.5, 30), (0.7, 20)]
   \<and> (\<exists>a b.
     user_topic_mastery (correct_streak fresh_store 0 ''u1'' ''t1'' [(0.5, 30)]) (''u1'', ''t1'')
       = Some a
     \<and> user_topic_mastery (correct_streak fresh_store 0 ''u1'' ''t1'' [(0.5, 30), (0.7, 20)])
         (''u1'', ''t1'') = Some b
     \<and> (if 0.05 < confidence_interval a then confidence_interval b < confidence_interval a
        else confidence_interval b = 0.05)
     \<and> (if mastery_score a < 0.99 then mastery_score a < mastery_score b
        else mastery_score b = 0.99))"
proof -
  have h1: "\<not> read_error fresh_store" and h2: "\<not> write_error fresh_store"
    and h3: "user_topic_mastery fresh_store (''u1'', ''t1'') = Some initialMastery"
    by (simp_all add: fresh_store_def empty_store_def)
  have h4: "within_documented_ranges initialMastery"
    by (simp add: within_documented_ranges_def initialMastery_def)
  have h5: "last_attempt_at initialMastery = None" by (simp add: initialMastery_def)
  then have h5': "last_attempt_at initialMastery = None \<or> last_attempt_at initialMastery = Some 0"
    by simp
  have h6: "list_all valid_answer [(0.5, 30), (0.7, 20)]" by (simp add: valid_answer_def)
  have h7: "1 < length [(0.5::real, 30::real), (0.7, 20)]" by simp
  from success_streak_monotone [OF h1 h2 h3 h4 h5' h6 h7] h1 h2 h3 h4 h5 h6
  show ?thesis by simp
qed


subsection \<open>The time of mastery\<close>

lemma achieved_at_step:
  "achieved_at (snd (updateMastery s now u t c d tt)) u t =
     (case achieved_at s u t of
        Some a \<Rightarrow> Some a
      | None \<Rightarrow>
          (case fst (updateMastery s now u t c d tt) of
             Inl e \<Rightarrow> None
           | Inr updatedMastery \<Rightarrow>
               if 0.8 \<le> mastery_score updatedMastery then Some now else None))"
proof (cases "user_topic_mastery s (u, t)")
  case None
  show ?thesis
    using updateMastery_missing_row [OF None, of now c d tt]
      updateMastery_result_missing_row [OF None, of now c d tt] None
    by (simp add: achieved_at_def updated_row_fields initialMastery_def)
next
  case (Some r)
  show ?thesis
    using updateMastery_existing_row [OF Some, of now c d tt]
      updateMastery_result_existing_row [OF Some, of now c d tt] Some
    by (cases "mastery_achieved_at r") (simp_all add: achieved_at_def updated_row_fields)
qed

lemma achieved_at_kept:
  assumes "achieved_at s u t = Some a"
  shows "achieved_at (updateMastery_calls s u t calls) u t = Some a"
  using assms
proof (induction calls arbitrary: s)
  case Nil
  then show ?case by simp
next
  case (Cons call calls)
  obtain now c d tt where call: "call = (now, c, d, tt)" by (cases call) auto
  have "achieved_at (snd (updateMastery s now u t c d tt)) u t = Some a"
    using Cons.prems by (simp add: achieved_at_step)
  from Cons.IH [OF this] show ?case by (simp add: call)
qed

text \<open>
  Claim C5.  An update leaves a set \<^verbatim>\<open>mastery_achieved_at\<close> as it is; it sets an unset one
  exactly when the update succeeds with a new mastery score of at least 0.8, to the time
  of that update.  So the field goes from unset to set at most once, and once it holds a
  time \<open>a\<close> it holds \<open>a\<close> after any later sequence of updates, whatever the score becomes.
\<close>

theorem mastery_achieved_at_set_once:
  "achieved_at (snd (updateMastery s now userId topicId isCorrect difficulty timeTaken))
       userId topicId =
     (case achieved_at s userId topicId of
        Some a \<Rightarrow> Some a
      | None \<Rightarrow>
          (case fst (updateMastery s now userId topicId isCorrect difficulty timeTaken) of
             Inl e \<Rightarrow> None
           | Inr updatedMastery \<Rightarrow>
               if 0.8 \<le> mastery_score updatedMastery then Some now else None))
   \<and> (achieved_at s userId topicId = Some a \<longrightarrow>
        achieved_at (updateMastery_calls s userId topicId calls) userId topicId = Some a)"
  using achieved_at_step [of s now userId topicId isCorrect difficulty timeTaken]
    achieved_at_kept [of s userId topicId a calls]
  by blast

theorem mastery_achieved_at_set_once_witness:
  "achieved_at mastered_store ''u1'' ''t1'' = Some 5
   \<and> achieved_at (updateMastery_calls mastered_store ''u1'' ''t1'' [(10, False, 0.5, 30)])
        ''u1'' ''t1'' = Some 5
   \<and> map_option mastery_score
        (user_topic_mastery (updateMastery_calls mastered_store ''u1'' ''t1'' [(10, False, 0.5, 30)])
           (''u1'', ''t1'')) = Some 0.765"
proof -
  have h: "achieved_at mastered_store ''u1'' ''t1'' = Some 5"
    by (simp add: achieved_at_def mastered_store_def empty_store_def initialMastery_def)
  have row: "user_topic_mastery mastered_store (''u1'', ''t1'') =
      Some (initialMastery\<lparr>mastery_score := 0.85, attempts_count := 12, correct_answers := 11,
                         time_spent_seconds := 300, mastery_achieved_at := Some 5\<rparr>)"
    and flags: "\<not> read_error mastered_store" "\<not> write_error mastered_store"
    by (simp_all add: mastered_store_def empty_store_def)
  have "map_option mastery_score
        (user_topic_mastery (updateMastery_calls mastered_store ''u1'' ''t1'' [(10, False, 0.5, 30)])
           (''u1'', ''t1'')) = Some 0.765"
    using updateMastery_existing_row [OF row, of 10 False "0.5" 30] flags
    by (simp add: updated_row_def initialMastery_def applyBKTUpdate_def Let_def
        timeAdjustment_def getTimeSinceLastAttempt_def round4_def js_round_def)
  with h mastery_achieved_at_set_once [of mastered_store 10 "''u1''" "''t1''" False "0.5" 30 5
      "[(10, False, 0.5, 30)]"]
  show ?thesis by blast
qed


subsection \<open>Insights\<close>

lemma identifyStrengths_guarded:
  "identifyStrengths mastery = Inr (
     (if mastery_score mastery \<ge> 0.7 then [''Strong understanding of core concepts''] else [])
     @ (if real_of_int (correct_answers mastery) / real_of_int (max 1 (attempts_count mastery))
           \<ge> 0.8
        then [''High accuracy in responses''] else [])
     @ (if learning_rate mastery \<le> 0.1 then [''Consistent performance''] else []))"
proof -
  have "real_of_int (max 1 (attempts_count mastery)) \<noteq> 0" by (simp add: max_def)
  then show ?thesis by (simp add: identifyStrengths_def js_divide_def)
qed

lemma identifyImprovementAreas_guarded:
  "identifyImprovementAreas mastery = Inr (
     (if mastery_score mastery < 0.5
      then [''Needs more practice with fundamental concepts''] else [])
     @ (if real_of_int (correct_answers mastery) / real_of_int (max 1 (attempts_count mastery))
           < 0.6
        then [''Focus on accuracy improvement''] else [])
     @ (if confidence_interval mastery > 0.3
        then [''More practice needed to build confidence''] else []))"
proof -
  have "real_of_int (max 1 (attempts_count mastery)) \<noteq> 0" by (simp add: max_def)
  then show ?thesis by (simp add: identifyImprovementAreas_def js_divide_def)
qed

lemma getMasteryInsights_row:
  assumes "select_mastery s u t = Some mastery"
  shows "\<exists>str areas. getMasteryInsights s u t = Inr (Some
           \<lparr>mastery_level = getMasteryLevel (mastery_score mastery),
            insights_mastery_score = mastery_score mastery,
            confidence = 1 - confidence_interval mastery,
            accuracy = (if attempts_count mastery > 0
                        then real_of_int (correct_answers mastery)
                             / real_of_int (attempts_count mastery)
                        else 0),
            insights_avg_time_per_question =
              (if attempts_count mastery > 0
               then time_spent_seconds mastery / real_of_int (attempts_count mastery)
               else 0),
            insights_total_attempts = attempts_count mastery,
            predicted_success_rate = predictNextQuestionSuccess mastery,
            recommended_difficulty = recommendOptimalDifficulty mastery,
            strengths = str,
            improvement_areas = areas\<rparr>)"
  using assms
  by (simp add: getMasteryInsights_def js_divide_def identifyStrengths_guarded
      identifyImprovementAreas_guarded)

lemma getMasteryLevel_label: "getMasteryLevel score = level_label score"
  by (simp add: getMasteryLevel_def level_label_def)

lemma recommendOptimalDifficulty_clamp:
  "recommendOptimalDifficulty mastery =
     clamp (mastery_score mastery + 0.1 - confidence_interval mastery * 0.2) 0.1 0.9"
  by (simp add: recommendOptimalDifficulty_def clamp_def Let_def max_def min_def)

text \<open>
  Claim C7.  For every stored mastery state the insights have
  \<open>predictedSuccessRate = min(0.95, masteryScore + (1 - confidenceInterval) * 0.1)\<close>,
  \<open>recommendedDifficulty = clamp(masteryScore + 0.1 - confidenceInterval * 0.2, 0.1, 0.9)\<close>
  and the level label of the table Novice (below 0.2), Beginning (below 0.4), Developing
  (below 0.6), Proficient (below 0.8), Expert (0.8 and above).
\<close>

theorem insights_formulas:
  assumes "select_mastery s userId topicId = Some mastery"
  shows "\<exists>ins. getMasteryInsights s userId topicId = Inr (Some ins)
     \<and> predicted_success_rate ins
         = min 0.95 (mastery_score mastery + (1 - confidence_interval mastery) * 0.1)
     \<and> recommended_difficulty ins
         = clamp (mastery_score mastery + 0.1 - confidence_interval mastery * 0.2) 0.1 0.9
     \<and> mastery_level ins = level_label (mastery_score mastery)"
proof -
  from getMasteryInsights_row [OF assms]
  obtain ins where "getMasteryInsights s userId topicId = Inr (Some ins)"
    and "predicted_success_rate ins = predictNextQuestionSuccess mastery"
    and "recommended_difficulty ins = recommendOptimalDifficulty mastery"
    and "mastery_level ins = getMasteryLevel (mastery_score mastery)"
    by force
  then show ?thesis
    by (simp add: getMasteryLevel_label recommendOptimalDifficulty_clamp
        predictNextQuestionSuccess_def Let_def)
qed

theorem insights_formulas_witness:
  "select_mastery fresh_store ''u1'' ''t1'' = Some initialMastery
   \<and> (\<exists>ins. getMasteryInsights fresh_store ''u1'' ''t1'' = Inr (Some ins)
        \<and> predicted_success_rate ins = 0.17
        \<and> recommended_difficulty ins = 0.14
        \<and> mastery_level ins = ''Novice'')"
proof -
  have h: "select_mastery fresh_store ''u1'' ''t1'' = Some initialMastery"
    by (simp add: select_mastery_def fresh_store_def empty_store_def)
  from insights_formulas [OF h] h show ?thesis
    by (simp add: initialMastery_def clamp_def level_label_def)
qed

lemma getMasteryInsights_finite: "getMasteryInsights s u t \<noteq> Inl NonFinite"
proof (cases "select_mastery s u t")
  case None
  then show ?thesis by (simp add: getMasteryInsights_def)
next
  case (Some mastery)
  from getMasteryInsights_row [OF Some] show ?thesis by auto
qed

text \<open>
  Claim C10.  No division of the insights computation has divisor 0: neither
  \<^verbatim>\<open>getMasteryInsights\<close> nor the strengths and improvement-area rules, which divide by
  \<open>max(1, attempts_count)\<close>, ever yield a non-finite number; and for a stored state with
  \<open>attempts_count = 0\<close> the insights report accuracy 0 and average time per question 0.
\<close>

theorem insights_divisions_guarded:
  "getMasteryInsights s userId topicId \<noteq> Inl NonFinite
   \<and> identifyStrengths mastery \<noteq> Inl NonFinite
   \<and> identifyImprovementAreas mastery \<noteq> Inl NonFinite
   \<and> (select_mastery s userId topicId = Some mastery \<and> attempts_count mastery = 0 \<longrightarrow>
        (\<exists>ins. getMasteryInsights s userId topicId = Inr (Some ins)
           \<and> accuracy ins = 0 \<and> insights_avg_time_per_question ins = 0))"
proof -
  have "\<exists>ins. getMasteryInsights s userId topicId = Inr (Some ins)
           \<and> accuracy ins = 0 \<and> insights_avg_time_per_question ins = 0"
    if "select_mastery s userId topicId = Some mastery" "attempts_count mastery = 0"
    using getMasteryInsights_row [OF that(1)] that(2) by force
  then show ?thesis
    by (simp add: getMasteryInsights_finite identifyStrengths_guarded
        identifyImprovementAreas_guarded)
qed

theorem insights_divisions_guarded_witness:
  "select_mastery fresh_store ''u1'' ''t1'' = Some initialMastery
   \<and> attempts_count initialMastery = 0
   \<and> (\<exists>ins. getMasteryInsights fresh_store ''u1'' ''t1'' = Inr (Some ins)
        \<and> accuracy ins = 0 \<and> insights_avg_time_per_question ins = 0)"
proof -
  have h: "select_mastery fresh_store ''u1'' ''t1'' = Some initialMastery"
    by (simp add: select_mastery_def fresh_store_def empty_store_def)
  have z: "attempts_count initialMastery = 0" by (simp add: initialMastery_def)
  from insights_divisions_guarded [of fresh_store "''u1''" "''t1''" initialMastery] h z
  show ?thesis by blast
qed


subsection \<open>The bandit model\<close>

text \<open>
  Claim C9.  When no bandit model is stored for the user, \<^verbatim>\<open>BanditService.updateModel\<close>
  returns (it has no way to throw) and leaves the whole store unchanged.
\<close>

theorem update_without_model_is_noop:
  assumes "bandit_models s userId = None"
  shows "BanditService_updateModel s now userId isCorrect difficulty context = s"
  using assms by (simp add: BanditService_updateModel_def select_bandit_def)

theorem update_without_model_is_noop_witness:
  "bandit_models empty_store ''u1'' = None
   \<and> BanditService_updateModel empty_store 7 ''u1'' True 0.9
        (buildUserContext empty_store 7 ''u1'' ''t1'') = empty_store"
  using update_without_model_is_noop [of empty_store "''u1''" 7 True "0.9"
      "buildUserContext empty_store 7 ''u1'' ''t1''"]
  by (simp add: empty_store_def)

lemma updated_arm_parameters_invariant:
  "BanditModel_invariant (updated_arm_parameters armParams c d)"
  by (simp add: BanditModel_invariant_def arm_ok_def updated_arm_parameters_def Let_def)

lemma BanditService_updateModel_invariant:
  assumes "bandit_models s u = Some model" "BanditModel_invariant (arm_parameters model)"
  shows "\<exists>model'. bandit_models (BanditService_updateModel s now u c d ctx) u = Some model'
           \<and> BanditModel_invariant (arm_parameters model')"
  using assms
  by (simp add: BanditService_updateModel_def select_bandit_def updated_arm_parameters_invariant)

text \<open>
  Claim C4.  If every arm of a user's bandit model has \<open>alpha \<ge> 1\<close> and \<open>beta \<ge> 1\<close>, then
  after any finite sequence of \<^verbatim>\<open>updateModel\<close> calls, with any outcomes, difficulties and
  contexts, the model is still there and every arm still has \<open>alpha \<ge> 1\<close> and
  \<open>beta \<ge> 1\<close>.
\<close>

theorem decay_floor_invariant:
  assumes "bandit_models s userId = Some model"
    and "BanditModel_invariant (arm_parameters model)"
  shows "\<exists>model'. bandit_models (BanditService_updateModel_calls s userId calls) userId = Some model'
           \<and> BanditModel_invariant (arm_parameters model')"
  using assms
proof (induction calls arbitrary: s model)
  case Nil
  then show ?case by simp
next
  case (Cons call calls)
  obtain now c d ctx where call: "call = (now, c, d, ctx)" by (cases call) auto
  from BanditService_updateModel_invariant [OF Cons.prems, of now c d ctx]
  obtain m' where "bandit_models (BanditService_updateModel s now userId c d ctx) userId = Some m'"
    and "BanditModel_invariant (arm_parameters m')" by blast
  from Cons.IH [OF this] show ?case by (simp add: call)
qed

theorem decay_floor_invariant_witness:
  "bandit_models fresh_store ''u1''
     = Some \<lparr>arm_parameters = initialArmParams, context_features = None,
             total_interactions = 0, last_updated = 0\<rparr>
   \<and> BanditModel_invariant initialArmParams
   \<and> (\<exists>model'. bandit_models
         (BanditService_updateModel_calls fresh_store ''u1''
            [(1, True, 0.3, buildUserContext fresh_store 1 ''u1'' ''t1''),
             (2, False, 0.9, buildUserContext fresh_store 2 ''u1'' ''t1'')]) ''u1'' = Some model'
        \<and> BanditModel_invariant (arm_parameters model'))"
proof -
  have h1: "bandit_models fresh_store ''u1''
     = Some \<lparr>arm_parameters = initialArmParams, context_features = None,
             total_interactions = 0, last_updated = 0\<rparr>"
    by (simp add: fresh_store_def empty_store_def)
  have h2: "BanditModel_invariant initialArmParams"
    by (simp add: BanditModel_invariant_def arm_ok_def initialArmParams_def)
  from decay_floor_invariant [OF h1, of "[(1, True, 0.3, buildUserContext fresh_store 1 ''u1'' ''t1''),
             (2, False, 0.9, buildUserContext fresh_store 2 ''u1'' ''t1'')]"] h1 h2
  show ?thesis by simp
qed

lemma contextual_adjustments_lower:
  "- 1.5 \<le> calculateContextualAdjustments context Easy"
  "- 1 \<le> calculateContextualAdjustments context Medium"
  "- 3.3 \<le> calculateContextualAdjustments context Hard"
  by (simp_all add: calculateContextualAdjustments_def Let_def adjust_def)

text \<open>
  Claim C2, as stated, fails.  The freshly initialised model satisfies the invariant
  (every alpha and beta is at least 1); for a user with no history, at 16:00, the rules
  for low topic mastery and for the afternoon lower the hard arm by 1.3, and
  \<^verbatim>\<open>sampleBeta\<close> is called for the hard arm with first argument \<open>1 - 1.3 = -0.3\<close>.
\<close>

theorem sampler_arguments_counterexample:
  "BanditModel_invariant initialArmParams
   \<and> fst (sampleBeta_arguments initialArmParams
            (buildUserContext empty_store 57600000 ''u1'' ''t1'') Hard) = - 0.3
   \<and> \<not> 0 < fst (sampleBeta_arguments initialArmParams
                  (buildUserContext empty_store 57600000 ''u1'' ''t1'') Hard)"
  by (simp add: BanditModel_invariant_def arm_ok_def initialArmParams_def
      sampleBeta_arguments_def calculateContextualAdjustments_def adjust_def Let_def
      buildUserContext_def select_mastery_def empty_store_def js_or_def)

lemma contextual_adjustments_attained:
  "calculateContextualAdjustments strong_learner_context Easy = - 1.5"
  "calculateContextualAdjustments struggling_learner_context Medium = - 1"
  "calculateContextualAdjustments struggling_learner_context Hard = - 3.3"
  by (simp_all add: calculateContextualAdjustments_def Let_def adjust_def
      strong_learner_context_def struggling_learner_context_def)

text \<open>
  Claim C2, amended.  For every bandit model satisfying the invariant and every context
  snapshot, the second argument \<open>beta[arm]\<close> of the sampler is strictly positive for each
  of the three arms.  The first argument \<open>alpha[arm] + contextualAdjustment[arm]\<close> is
  strictly positive for each arm on its own whenever that arm's alpha exceeds the largest
  amount by which the rules can lower the arm: \<open>alpha[easy] > 1.5\<close> for the easy arm,
  \<open>alpha[medium] > 1\<close> for the medium arm, \<open>alpha[hard] > 3.3\<close> for the hard arm.
  On the freshly initialised model this covers the easy and the medium arm.
\<close>

theorem sampler_arguments_positive_amended:
  "(BanditModel_invariant armParams \<longrightarrow>
      0 < snd (sampleBeta_arguments armParams context Easy)
      \<and> 0 < snd (sampleBeta_arguments armParams context Medium)
      \<and> 0 < snd (sampleBeta_arguments armParams context Hard))
   \<and> (1.5 < alpha (armParams Easy) \<longrightarrow>
        0 < fst (sampleBeta_arguments armParams context Easy))
   \<and> (1 < alpha (armParams Medium) \<longrightarrow>
        0 < fst (sampleBeta_arguments armParams context Medium))
   \<and> (3.3 < alpha (armParams Hard) \<longrightarrow>
        0 < fst (sampleBeta_arguments armParams context Hard))"
proof -
  have betas: "0 < beta (armParams Easy) \<and> 0 < beta (armParams Medium)
      \<and> 0 < beta (armParams Hard)"
    if "BanditModel_invariant armParams"
    using that by (simp add: BanditModel_invariant_def arm_ok_def)
  have easy: "0 < alpha (armParams Easy) + calculateContextualAdjustments context Easy"
    if "1.5 < alpha (armParams Easy)"
    using that contextual_adjustments_lower(1) [of "context"] by simp
  have medium: "0 < alpha (armParams Medium) + calculateContextualAdjustments context Medium"
    if "1 < alpha (armParams Medium)"
    using that contextual_adjustments_lower(2) [of "context"] by simp
  have hard: "0 < alpha (armParams Hard) + calculateContextualAdjustments context Hard"
    if "3.3 < alpha (armParams Hard)"
    using that contextual_adjustments_lower(3) [of "context"] by simp
  show ?thesis
    using betas easy medium hard by (simp add: sampleBeta_arguments_def)
qed

theorem sampler_arguments_positive_amended_witness:
  "BanditModel_invariant initialArmParams
   \<and> 1.5 < alpha (initialArmParams Easy) \<and> 1 < alpha (initialArmParams Medium)
   \<and> 0 < snd (sampleBeta_arguments initialArmParams struggling_learner_context Easy)
   \<and> 0 < snd (sampleBeta_arguments initialArmParams struggling_learner_context Medium)
   \<and> 0 < snd (sampleBeta_arguments initialArmParams struggling_learner_context Hard)
   \<and> 0 < fst (sampleBeta_arguments initialArmParams strong_learner_context Easy)
   \<and> 0 < fst (sampleBeta_arguments initialArmParams struggling_learner_context Medium)
   \<and> 3.3 < alpha (seasoned_arms Hard)
   \<and> 0 < fst (sampleBeta_arguments seasoned_arms struggling_learner_context Hard)"
proof -
  have h: "BanditModel_invariant initialArmParams"
    by (simp add: BanditModel_invariant_def arm_ok_def initialArmParams_def)
  have a: "1.5 < alpha (initialArmParams Easy)" "1 < alpha (initialArmParams Medium)"
    by (simp_all add: initialArmParams_def)
  have b: "3.3 < alpha (seasoned_arms Hard)"
    by (simp add: seasoned_arms_def)
  from sampler_arguments_positive_amended [of initialArmParams struggling_learner_context]
    sampler_arguments_positive_amended [of initialArmParams strong_learner_context]
    sampler_arguments_positive_amended [of seasoned_arms struggling_learner_context]
    h a b
  show ?thesis by blast
qed


subsection \<open>Feedback processing\<close>

lemma BanditService_updateModel_other_fields:
  "user_topic_mastery (BanditService_updateModel s now u c d ctx) = user_topic_mastery s"
  "read_error (BanditService_updateModel s now u c d ctx) = read_error s"
  "write_error (BanditService_updateModel s now u c d ctx) = write_error s"
  by (simp_all add: BanditService_updateModel_def split: option.splits)

lemma processFeedback_store:
  "snd (processFeedback s now u t fb) =
     (let s1 = BanditService_updateModel s now u (feedback_isCorrect fb) (feedback_difficulty fb)
                 ((buildUserContext s now u t)
                    \<lparr>context_timeTaken := Some (js_or (feedback_timeTaken fb) 30)\<rparr>);
          first = updateMastery s1 now u t (feedback_isCorrect fb) (feedback_difficulty fb)
                    (js_or (feedback_timeTaken fb) 30)
      in case fst first of
           Inl e \<Rightarrow> snd first
         | Inr updatedMastery \<Rightarrow>
             snd (updateMastery (snd first) now u t (feedback_isCorrect fb)
                    (feedback_difficulty fb) (feedback_timeTaken fb)))"
  by (simp add: processFeedback_def AdaptiveService_updateModel_def Let_def js_or_def
      split: prod.splits sum.splits)

text \<open>
  Claim C1.  One call of \<^verbatim>\<open>processFeedback\<close> is meant to apply the bandit update once and the
  mastery update once.  The code applies the bandit update once, but it runs
  \<^verbatim>\<open>updateMastery\<close> twice: once inside \<^verbatim>\<open>updateModel\<close> and once more to fetch the
  "updated mastery state".  On a store where user u1 has a fresh mastery row and a fresh
  bandit model, one correct answer (difficulty 0.5, 30 seconds) leaves
  \<open>attempts_count = 2\<close> and \<open>mastery_score = 0.3475\<close>, where one application of the
  update gives \<open>attempts_count = 1\<close> and \<open>mastery_score = 0.235\<close>; the bandit model
  counts one interaction.
\<close>

theorem processFeedback_counts_answer_twice:
  "map_option attempts_count
     (user_topic_mastery (snd (processFeedback fresh_store 0 ''u1'' ''t1'' example_feedback))
        (''u1'', ''t1'')) = Some 2
   \<and> map_option mastery_score
     (user_topic_mastery (snd (processFeedback fresh_store 0 ''u1'' ''t1'' example_feedback))
        (''u1'', ''t1'')) = Some 0.3475
   \<and> map_option attempts_count
     (user_topic_mastery (snd (updateMastery fresh_store 0 ''u1'' ''t1'' True 0.5 30))
        (''u1'', ''t1'')) = Some 1
   \<and> map_option mastery_score
     (user_topic_mastery (snd (updateMastery fresh_store 0 ''u1'' ''t1'' True 0.5 30))
        (''u1'', ''t1'')) = Some 0.235
   \<and> map_option total_interactions
     (bandit_models (snd (processFeedback fresh_store 0 ''u1'' ''t1'' example_feedback)) ''u1'')
       = Some 1"
proof -
  let ?ctx = "(buildUserContext fresh_store 0 ''u1'' ''t1'')\<lparr>context_timeTaken := Some 30\<rparr>"
  let ?st1 = "\<lparr>mastery_score = 0.235, learning_rate = 0.147, forgetting_rate = 0.05,
      confidence_interval = 0.285\<rparr> :: MasteryState"
  let ?r1 = "updated_row 0 initialMastery ?st1 True 30"
  let ?s1 = "BanditService_updateModel fresh_store 0 ''u1'' True 0.5 ?ctx"
  let ?s2 = "snd (updateMastery ?s1 0 ''u1'' ''t1'' True 0.5 30)"
  let ?s3 = "snd (updateMastery ?s2 0 ''u1'' ''t1'' True 0.5 30)"
  have fresh: "user_topic_mastery fresh_store (''u1'', ''t1'') = Some initialMastery"
    "\<not> read_error fresh_store" "\<not> write_error fresh_store"
    by (simp_all add: fresh_store_def empty_store_def)
  have row1: "user_topic_mastery ?s1 (''u1'', ''t1'') = Some initialMastery"
    and flags1: "\<not> read_error ?s1" "\<not> write_error ?s1"
    using fresh by (simp_all add: BanditService_updateModel_other_fields)
  have row2: "user_topic_mastery ?s2 (''u1'', ''t1'') = Some ?r1"
    using updateMastery_existing_row [OF row1, of 0 True "0.5" 30] flags1
    by (simp add: fresh_state_correct_answer)
  have res2: "fst (updateMastery ?s1 0 ''u1'' ''t1'' True 0.5 30) = Inr ?st1"
    using updateMastery_result_existing_row [OF row1, of 0 True "0.5" 30] flags1
    by (simp add: fresh_state_correct_answer)
  have flags2: "\<not> read_error ?s2" "\<not> write_error ?s2"
    using flags1 by (simp_all add: updateMastery_flags)
  have row3: "user_topic_mastery ?s3 (''u1'', ''t1'') =
      Some (updated_row 0 ?r1 (applyBKTUpdate 0 ?r1 True 0.5 30) True 30)"
    using updateMastery_existing_row [OF row2, of 0 True "0.5" 30] flags2
    by simp
  have pf: "snd (processFeedback fresh_store 0 ''u1'' ''t1'' example_feedback) = ?s3"
    using res2
    by (simp add: processFeedback_store example_feedback_def js_or_def Let_def)
  have single: "user_topic_mastery (snd (updateMastery fresh_store 0 ''u1'' ''t1'' True 0.5 30))
        (''u1'', ''t1'') = Some ?r1"
    using updateMastery_existing_row [OF fresh(1), of 0 True "0.5" 30] fresh(2,3)
    by (simp add: fresh_state_correct_answer)
  have "bandit_models ?s3 = bandit_models ?s1"
    by (simp add: updateMastery_bandit_models)
  moreover have "map_option total_interactions (bandit_models ?s1 ''u1'') = Some 1"
    by (simp add: BanditService_updateModel_def select_bandit_def fresh_store_def
        empty_store_def)
  ultimately have bandit: "map_option total_interactions (bandit_models ?s3 ''u1'') = Some 1"
    by simp
  show ?thesis
    unfolding pf using row3 single bandit
    by (simp add: updated_row_def initialMastery_def applyBKTUpdate_def Let_def
        timeAdjustment_def getTimeSinceLastAttempt_def round4_def js_round_def)
qed

end
